theory Spec2Isabelle
  imports Complex_Main
begin

text \<open>
  A shallow embedding of the AI Medibot web client: the chat page (\<open>app/chat/page.tsx\<close>),
  the escalations page, the login flow and the API helpers (\<open>lib/api.ts\<close>), with the
  properties of the specification that these sources decide. The two components of the
  decision core that the specification describes and the sources do not contain
  (confidence fusion, escalation resolution) are modelled from the specification and
  marked as such.
\<close>

section \<open>JavaScript values used by the pages\<close>

text \<open>
  The front end is TypeScript. An optional field (\<open>x?: T\<close>, \<open>T | null\<close>) is an
  \<open>option\<close>: \<open>undefined\<close> and \<open>null\<close> are both \<open>None\<close>, since every test the pages make
  on these fields (truthiness, \<open>=== true\<close>, \<open>typeof ... === "number"\<close>, \<open>??\<close>) treats them alike.
  A \<open>number\<close> that holds a confidence is a \<open>real\<close>: the values arrive through \<open>JSON\<close>, which
  has no NaN, and the comparison \<open>c < 0.4\<close> on doubles agrees with the comparison of the
  reals they denote (no double lies between 0.4 and the double nearest to it). Identifiers
  are integers. A string is the list of the bytes of its UTF-8 text, so that a character
  of ASCII is one byte below 128 and every other character is a run of bytes from 128 on;
  a prefix test on the bytes is the prefix test on the characters.
\<close>

definition truthy_str :: "string option \<Rightarrow> bool" where
  "truthy_str s = (case s of None \<Rightarrow> False | Some t \<Rightarrow> t \<noteq> [])"

definition truthy_num :: "int option \<Rightarrow> bool" where
  "truthy_num n = (case n of None \<Rightarrow> False | Some k \<Rightarrow> k \<noteq> 0)"

text \<open>\<open>a || d\<close> on an optional string \<open>a\<close> and a string \<open>d\<close>.\<close>

definition str_or :: "string option \<Rightarrow> string \<Rightarrow> string" where
  "str_or s d = (case s of None \<Rightarrow> d | Some t \<Rightarrow> if t = [] then d else t)"

text \<open>
  \<open>String.prototype.toLowerCase\<close>. A character of ASCII is folded by itself, whatever
  stands around it: the capitals \<open>A\<close> to \<open>Z\<close> go to \<open>a\<close> to \<open>z\<close>, the rest stays. Every
  other character is mapped by the case tables of Unicode, which are not part of the
  sources and are a parameter: \<open>tbl before rest\<close> is what the byte at the head of \<open>rest\<close>
  contributes to the result when \<open>before\<close> stands in front of it (for the first byte of a
  character the bytes of the character's lower case, which may depend on the text around
  it and may be ASCII, as for the Kelvin sign; for its later bytes nothing).
\<close>

definition toLowerChar :: "char \<Rightarrow> char" where
  "toLowerChar c =
     (let n = (of_char c :: nat) in
      if 65 \<le> n \<and> n \<le> 90
      then Char (digit0 c) (digit1 c) (digit2 c) (digit3 c) (digit4 c) True (digit6 c) (digit7 c)
      else c)"

definition is_ascii :: "char \<Rightarrow> bool" where
  "is_ascii c = ((of_char c :: nat) < 128)"

type_synonym case_table = "string \<Rightarrow> string \<Rightarrow> string"

fun lower_from :: "case_table \<Rightarrow> string \<Rightarrow> string \<Rightarrow> string" where
  "lower_from tbl before [] = []"
| "lower_from tbl before (c # cs) =
     (if is_ascii c then [toLowerChar c] else tbl before (c # cs))
       @ lower_from tbl (before @ [c]) cs"

definition toLowerCase :: "case_table \<Rightarrow> string \<Rightarrow> string" where
  "toLowerCase tbl s = lower_from tbl [] s"

definition startsWith :: "string \<Rightarrow> string \<Rightarrow> bool" where
  "startsWith t p = (take (length p) t = p)"

text \<open>
  \<open>String.prototype.trim\<close> removes the white space and the line terminators of ECMAScript
  at both ends: tab, line feed, vertical tab, form feed, carriage return, space, U+00A0,
  U+1680, U+2000 to U+200A, U+2028, U+2029, U+202F, U+205F, U+3000 and U+FEFF, here in
  UTF-8. \<open>strip ws\<close> removes at the front, one after the other, the members of \<open>ws\<close> the
  string starts with; the end is stripped on the reversed string.
\<close>

definition whiteSpace :: "string list" where
  "whiteSpace =
     [[CHR 0x09], [CHR 0x0A], [CHR 0x0B], [CHR 0x0C], [CHR 0x0D], [CHR 0x20],
      [CHR 0xC2, CHR 0xA0],
      [CHR 0xE1, CHR 0x9A, CHR 0x80],
      [CHR 0xE2, CHR 0x80, CHR 0x80], [CHR 0xE2, CHR 0x80, CHR 0x81],
      [CHR 0xE2, CHR 0x80, CHR 0x82], [CHR 0xE2, CHR 0x80, CHR 0x83],
      [CHR 0xE2, CHR 0x80, CHR 0x84], [CHR 0xE2, CHR 0x80, CHR 0x85],
      [CHR 0xE2, CHR 0x80, CHR 0x86], [CHR 0xE2, CHR 0x80, CHR 0x87],
      [CHR 0xE2, CHR 0x80, CHR 0x88], [CHR 0xE2, CHR 0x80, CHR 0x89],
      [CHR 0xE2, CHR 0x80, CHR 0x8A],
      [CHR 0xE2, CHR 0x80, CHR 0xA8], [CHR 0xE2, CHR 0x80, CHR 0xA9],
      [CHR 0xE2, CHR 0x80, CHR 0xAF],
      [CHR 0xE2, CHR 0x81, CHR 0x9F],
      [CHR 0xE3, CHR 0x80, CHR 0x80],
      [CHR 0xEF, CHR 0xBB, CHR 0xBF]]"

definition space_at_start :: "string list \<Rightarrow> string \<Rightarrow> nat" where
  "space_at_start ws s =
     (case find (\<lambda>w. take (length w) s = w) ws of None \<Rightarrow> 0 | Some w \<Rightarrow> length w)"

function strip :: "string list \<Rightarrow> string \<Rightarrow> string" where
  "strip ws s =
     (if s = [] \<or> space_at_start ws s = 0 then s
      else strip ws (drop (space_at_start ws s) s))"
  by pat_completeness auto
termination
  by (relation "measure (\<lambda>(ws, s). length s)") auto

declare strip.simps [simp del]

definition trim :: "string \<Rightarrow> string" where
  "trim s = rev (strip (map rev whiteSpace) (rev (strip whiteSpace s)))"

section \<open>Chat page (app/chat/page.tsx): messages and what is rendered for each\<close>

datatype role = User | Assistant

datatype model_mode = Online | Offline

record citation =
  title :: "string option"
  source :: "string option"
  source_file :: "string option"
  page_number :: "int option"

record UIMessage =
  msg_id :: string
  role :: role
  content :: string
  chat_message_id :: "int option"
  citations :: "citation list option"
  emergency_detected :: "bool option"
  risk_level :: "string option"
  confidence_score :: "real option"
  model_mode :: "model_mode option"

subsection \<open>The header's derived values\<close>

text \<open>\<open>[...messages].reverse().find(p)\<close> is \<open>find p (rev messages)\<close>.\<close>

definition conversationRisk :: "UIMessage list \<Rightarrow> string" where
  "conversationRisk msgs =
     (case find (\<lambda>m. role m = Assistant) (rev msgs) of
        None \<Rightarrow> ''low''
      | Some lastAssistant \<Rightarrow>
          if emergency_detected lastAssistant = Some True then ''emergency''
          else if risk_level lastAssistant = Some ''high'' then ''high''
          else ''low'')"

definition hadPreviousEmergency :: "UIMessage list \<Rightarrow> bool" where
  "hadPreviousEmergency msgs =
     list_ex (\<lambda>m. role m = Assistant \<and> emergency_detected m = Some True) msgs"

definition nonMedicalPrefixes :: "string list" where
  "nonMedicalPrefixes = [''hi'', ''hello'', ''thanks'', ''thank you'', ''bye'']"

definition isNonMedicalTurn :: "case_table \<Rightarrow> UIMessage list \<Rightarrow> bool" where
  "isNonMedicalTurn tbl msgs =
     (case find (\<lambda>m. role m = User) (rev msgs) of
        None \<Rightarrow> False
      | Some lastUser \<Rightarrow>
          (let t = toLowerCase tbl (content lastUser)
           in list_ex (\<lambda>p. startsWith t p) nonMedicalPrefixes))"

text \<open>The yellow "previous emergency" badge of the header is rendered exactly when:\<close>

definition previous_emergency_badge :: "case_table \<Rightarrow> UIMessage list \<Rightarrow> bool" where
  "previous_emergency_badge tbl msgs =
     (conversationRisk msgs \<noteq> ''emergency'' \<and> hadPreviousEmergency msgs
      \<and> \<not> isNonMedicalTurn tbl msgs)"

subsection \<open>One message bubble\<close>

text \<open>
  The view of a message records which blocks of the bubble are rendered and with what
  content; class names and the escalation buttons inside the emergency banner are left out.
  \<open>confidence_line\<close> is the number handed to \<open>toFixed(0)\<close>. Where a test of the form
  \<open>n && (...)\<close> meets the number 0 (\<open>page_number\<close>, \<open>chat_message_id\<close>), React renders the
  bare digit instead of the block; the view records the block only.
\<close>

record citation_view =
  summary :: string
  source_line :: "string option"
  file_line :: "string option"
  page_line :: "int option"

record message_view =
  emergency_banner :: bool
  risk_badge :: "string option"
  mode_badge :: "string option"
  content_shown :: string
  confidence_line :: "real option"
  low_confidence_warning :: bool
  sources_block :: "citation_view list option"
  explain_button :: bool

definition render_citation :: "citation \<Rightarrow> citation_view" where
  "render_citation c =
     \<lparr> summary = str_or (title c) (str_or (source c) ''Source''),
       source_line = (if truthy_str (source c) then source c else None),
       file_line = (if truthy_str (source_file c) then source_file c else None),
       page_line = (if truthy_num (page_number c) then page_number c else None) \<rparr>"

definition isEmergency :: "UIMessage \<Rightarrow> bool" where
  "isEmergency m = (emergency_detected m = Some True)"

definition render_message :: "UIMessage \<Rightarrow> message_view" where
  "render_message m =
     \<lparr> emergency_banner = isEmergency m,
       risk_badge =
         (if role m = Assistant \<and> truthy_str (risk_level m) \<and> \<not> isEmergency m
          then risk_level m else None),
       mode_badge =
         (if role m = Assistant
          then (case model_mode m of
                  None \<Rightarrow> None
                | Some Offline \<Rightarrow> Some ''Offline safe mode''
                | Some Online \<Rightarrow> Some ''Online AI'')
          else None),
       content_shown = content m,
       confidence_line =
         (if role m = Assistant
          then (case confidence_score m of None \<Rightarrow> None | Some c \<Rightarrow> Some (c * 100))
          else None),
       low_confidence_warning =
         (role m = Assistant \<and>
          (case confidence_score m of None \<Rightarrow> False | Some c \<Rightarrow> c < 0.4)),
       sources_block =
         (if role m = Assistant \<and> \<not> isEmergency m
          then (case citations m of
                  None \<Rightarrow> None
                | Some cs \<Rightarrow> if length cs > 0 then Some (map render_citation cs) else None)
          else None),
       explain_button =
         (role m = Assistant \<and> truthy_num (chat_message_id m) \<and> \<not> isEmergency m) \<rparr>"

subsection \<open>The explain drawer\<close>

record ExplainResponse =
  ex_chat_message_id :: int
  ex_risk_level :: string
  ex_emergency_detected :: bool
  ex_risk_reason :: string
  ex_risk_trigger :: "string option"
  ex_primary_domain :: "string option"
  ex_confidence_score :: "real option"
  ex_reasoning_summary :: "string option"
  ex_suppression_reason :: "string option"

text \<open>The orange low-confidence notice and the yellow emergency notice of the drawer.\<close>

definition drawer_low_confidence_notice :: "ExplainResponse \<Rightarrow> bool" where
  "drawer_low_confidence_notice explainData =
     (case ex_confidence_score explainData of None \<Rightarrow> False | Some c \<Rightarrow> c < 0.4)"

definition drawer_emergency_notice :: "ExplainResponse \<Rightarrow> bool" where
  "drawer_emergency_notice explainData =
     (ex_suppression_reason explainData = Some ''emergency_override'')"

section \<open>Sending a turn (\<open>onSend\<close>)\<close>

record ChatResponse =
  res_conversation_id :: int
  res_reply :: string
  res_chat_message_id :: int
  res_citations :: "citation list option"
  res_risk_level :: "string option"
  res_emergency_detected :: "bool option"
  res_confidence_score :: "real option"
  res_suppression_reason :: "string option"
  res_model_mode :: "model_mode option"

text \<open>
  The three messages \<open>onSend\<close> builds. Their identifiers come from \<open>crypto.randomUUID()\<close>
  and are parameters here.
\<close>

definition userMsg :: "string \<Rightarrow> string \<Rightarrow> UIMessage" where
  "userMsg uid txt =
     \<lparr> msg_id = uid, role = User, content = txt, chat_message_id = None, citations = None,
       emergency_detected = None, risk_level = None, confidence_score = None,
       model_mode = None \<rparr>"

definition thinkingMsg :: "string \<Rightarrow> UIMessage" where
  "thinkingMsg thinkingId =
     \<lparr> msg_id = thinkingId, role = Assistant, content = ''Thinking...'',
       chat_message_id = None, citations = None, emergency_detected = None,
       risk_level = None, confidence_score = None, model_mode = None \<rparr>"

definition assistantMsg :: "string \<Rightarrow> ChatResponse \<Rightarrow> UIMessage" where
  "assistantMsg rid res =
     \<lparr> msg_id = rid, role = Assistant, content = res_reply res,
       chat_message_id = Some (res_chat_message_id res),
       citations = Some (case res_citations res of None \<Rightarrow> [] | Some cs \<Rightarrow> cs),
       emergency_detected = res_emergency_detected res,
       risk_level = res_risk_level res,
       confidence_score = res_confidence_score res,
       model_mode = res_model_mode res \<rparr>"

definition failureMsg :: "string \<Rightarrow> UIMessage" where
  "failureMsg rid =
     \<lparr> msg_id = rid, role = Assistant,
       content = ''Something went wrong while sending your message. Please try again.'',
       chat_message_id = None, citations = None, emergency_detected = None,
       risk_level = None, confidence_score = None, model_mode = None \<rparr>"

section \<open>Properties of the rendering\<close>

lemma find_append:
  "find P (xs @ ys) = (case find P xs of None \<Rightarrow> find P ys | Some x \<Rightarrow> Some x)"
  by (induction xs) auto

lemma find_last_match:
  assumes "P a" and "\<forall>m \<in> set post. \<not> P m"
  shows "find P (rev (pre @ a # post)) = Some a"
proof -
  have "find P (rev post) = None"
    using assms(2) by (simp add: find_None_iff)
  then show ?thesis
    using assms(1) by (simp add: find_append)
qed

lemma find_no_match:
  assumes "\<forall>m \<in> set msgs. \<not> P m"
  shows "find P (rev msgs) = None"
  using assms by (simp add: find_None_iff)

text \<open>
  C1. An assistant message whose \<open>emergency_detected\<close> is true is rendered without the
  Sources block and without the "Why this answer?" button, whatever citations the message
  holds; in particular the message \<open>onSend\<close> builds from an emergency response that carries
  citations shows none of them.
\<close>

theorem C1_emergency_hides_citations:
  "(emergency_detected m = Some True \<longrightarrow>
      sources_block (render_message m) = None \<and> \<not> explain_button (render_message m))
   \<and> (res_emergency_detected res = Some True \<longrightarrow>
      sources_block (render_message (assistantMsg rid res)) = None
      \<and> \<not> explain_button (render_message (assistantMsg rid res)))"
  by (simp add: render_message_def isEmergency_def assistantMsg_def)

text \<open>A reply to an emergency turn that carries two citations, and the same reply not flagged.\<close>

definition sample_citations :: "citation list" where
  "sample_citations =
     [\<lparr> title = Some ''Chest pain'', source = Some ''WHO'', source_file = Some ''who.pdf'',
         page_number = Some 12 \<rparr>,
      \<lparr> title = None, source = Some ''NHS'', source_file = None, page_number = None \<rparr>]"

definition sample_response :: "bool \<Rightarrow> real \<Rightarrow> ChatResponse" where
  "sample_response emergency conf =
     \<lparr> res_conversation_id = 3, res_reply = ''Please seek immediate medical care.'',
       res_chat_message_id = 41, res_citations = Some sample_citations,
       res_risk_level = Some (if emergency then ''emergency'' else ''low''),
       res_emergency_detected = Some emergency,
       res_confidence_score = Some conf, res_suppression_reason = None,
       res_model_mode = Some Offline \<rparr>"

theorem C1_emergency_hides_citations_witness:
  "sources_block (render_message (assistantMsg ''r1'' (sample_response True 0.9))) = None
   \<and> \<not> explain_button (render_message (assistantMsg ''r1'' (sample_response True 0.9)))
   \<and> citations (assistantMsg ''r1'' (sample_response True 0.9)) = Some sample_citations
   \<and> sources_block (render_message (assistantMsg ''r1'' (sample_response False 0.9)))
       = Some (map render_citation sample_citations)"
  using C1_emergency_hides_citations
          [of "assistantMsg ''r1'' (sample_response True 0.9)" "sample_response True 0.9" "''r1''"]
  by (simp add: render_message_def isEmergency_def assistantMsg_def sample_response_def
        sample_citations_def)

text \<open>
  C2. For an assistant message that carries a numeric confidence score, the low-confidence
  warning of the bubble is rendered if and only if the score is strictly below 0.4; the
  notice of the explain drawer follows the same rule on the explanation's score.
\<close>

theorem C2_low_confidence_iff_below_threshold:
  "(role m = Assistant \<and> confidence_score m = Some c \<longrightarrow>
      (low_confidence_warning (render_message m) \<longleftrightarrow> c < 0.4))
   \<and> (ex_confidence_score e = Some c \<longrightarrow> (drawer_low_confidence_notice e \<longleftrightarrow> c < 0.4))"
  by (simp add: render_message_def drawer_low_confidence_notice_def)

definition sample_explain :: "real \<Rightarrow> ExplainResponse" where
  "sample_explain conf =
     \<lparr> ex_chat_message_id = 41, ex_risk_level = ''low'', ex_emergency_detected = False,
       ex_risk_reason = ''no trigger'', ex_risk_trigger = None, ex_primary_domain = None,
       ex_confidence_score = Some conf, ex_reasoning_summary = None,
       ex_suppression_reason = None \<rparr>"

theorem C2_low_confidence_iff_below_threshold_witness:
  "\<not> low_confidence_warning (render_message (assistantMsg ''r1'' (sample_response False 0.4)))
   \<and> \<not> drawer_low_confidence_notice (sample_explain 0.4)
   \<and> low_confidence_warning (render_message (assistantMsg ''r1'' (sample_response False 0.39)))
   \<and> drawer_low_confidence_notice (sample_explain 0.39)"
  using C2_low_confidence_iff_below_threshold
          [of "assistantMsg ''r1'' (sample_response False 0.4)" "0.4" "sample_explain 0.4"]
        C2_low_confidence_iff_below_threshold
          [of "assistantMsg ''r1'' (sample_response False 0.39)" "0.39" "sample_explain 0.39"]
  by (simp add: assistantMsg_def sample_response_def sample_explain_def)

section \<open>Properties of the header\<close>


lemma conversationRisk_no_assistant:
  assumes "\<forall>m \<in> set msgs. role m \<noteq> Assistant"
  shows "conversationRisk msgs = ''low''"
  using find_no_match [of msgs "\<lambda>m. role m = Assistant"] assms
  by (simp add: conversationRisk_def)

lemma conversationRisk_last_assistant:
  assumes "role a = Assistant" and "\<forall>m \<in> set post. role m \<noteq> Assistant"
  shows "conversationRisk (pre @ a # post) =
           (if emergency_detected a = Some True then ''emergency''
            else if risk_level a = Some ''high'' then ''high'' else ''low'')"
  using find_last_match [of "\<lambda>m. role m = Assistant" a post pre] assms
  by (simp add: conversationRisk_def)


text \<open>
  A history with an emergency on its first turn: the user reports chest pain, the assistant
  answers with an emergency verdict; then the user sends \<open>txt\<close> and the assistant answers
  with a low-risk reply.
\<close>

definition emergency_then :: "string \<Rightarrow> UIMessage list" where
  "emergency_then txt =
     [userMsg ''u1'' ''I have crushing chest pain'',
      assistantMsg ''r1'' (sample_response True 0.9),
      userMsg ''u2'' txt,
      assistantMsg ''r2'' (sample_response False 0.8)]"

definition blank_content :: "UIMessage \<Rightarrow> UIMessage" where
  "blank_content m = m\<lparr>content := []\<rparr>"

text \<open>
  C4. The displayed risk is a function of the most recent assistant message alone: it is
  "low" when there is no assistant message; otherwise it is "emergency" if that message's
  \<open>emergency_detected\<close> is true, "high" if its \<open>risk_level\<close> is "high", else "low", whatever
  the messages before it hold (an earlier emergency does not carry over).
\<close>

theorem C4_risk_is_message_scoped:
  "((\<forall>m \<in> set msgs. role m \<noteq> Assistant) \<longrightarrow> conversationRisk msgs = ''low'')
   \<and> (role a = Assistant \<and> (\<forall>m \<in> set post. role m \<noteq> Assistant) \<longrightarrow>
        conversationRisk (pre @ a # post) =
          (if emergency_detected a = Some True then ''emergency''
           else if risk_level a = Some ''high'' then ''high'' else ''low''))"
  using conversationRisk_no_assistant [of msgs]
        conversationRisk_last_assistant [of a post pre]
  by blast

theorem C4_risk_is_message_scoped_witness:
  "conversationRisk [userMsg ''u1'' ''hello''] = ''low''
   \<and> conversationRisk (emergency_then ''What is a fever?'') = ''low''
   \<and> conversationRisk (take 2 (emergency_then ''What is a fever?'')) = ''emergency''"
  using C4_risk_is_message_scoped
          [of "[userMsg ''u1'' ''hello'']" "assistantMsg ''r2'' (sample_response False 0.8)" "[]"
              "take 3 (emergency_then ''What is a fever?'')"]
        C4_risk_is_message_scoped
          [of "[]" "assistantMsg ''r1'' (sample_response True 0.9)" "[]"
              "[userMsg ''u1'' ''I have crushing chest pain'']"]
  by (simp add: emergency_then_def userMsg_def assistantMsg_def sample_response_def)

text \<open>
  What the "previous emergency" flag reads of a message, and a case table for the
  examples: it knows the Kelvin sign (U+212A, whose lower case is the letter k) and leaves
  every other character beyond ASCII as it is. The examples in ASCII never consult it.
\<close>

definition flags_of :: "UIMessage \<Rightarrow> role \<times> bool option" where
  "flags_of m = (role m, emergency_detected m)"

definition kelvin_table :: case_table where
  "kelvin_table before rest =
     (if take 3 rest = [CHR 0xE2, CHR 0x84, CHR 0xAA] then ''k''
      else if take 2 rest = [CHR 0x84, CHR 0xAA] \<and> take 1 (rev before) = [CHR 0xE2] then []
      else if take 1 rest = [CHR 0xAA] \<and> take 2 (rev before) = [CHR 0x84, CHR 0xE2] then []
      else take 1 rest)"


lemma isNonMedicalTurn_last_user:
  assumes "role u = User" and "\<forall>m \<in> set post. role m \<noteq> User"
  shows "isNonMedicalTurn tbl (pre @ u # post) =
           list_ex (\<lambda>p. startsWith (toLowerCase tbl (content u)) p) nonMedicalPrefixes"
  using find_last_match [of "\<lambda>m. role m = User" u post pre] assms
  by (simp add: isNonMedicalTurn_def)


lemma toLowerCase_ascii:
  "list_all is_ascii s \<Longrightarrow> lower_from tbl before s = map toLowerChar s"
  by (induction s arbitrary: before) simp_all

lemma startsWith_high:
  "startsWith (toLowerCase tbl (''high'' @ rest)) ''hi''"
  by (simp add: startsWith_def toLowerCase_def toLowerChar_def is_ascii_def)




text \<open>
  C8. The turn is non-medical exactly when the lower-cased text of the last user message
  starts with one of "hi", "hello", "thanks", "thank you", "bye", and then the
  "previous emergency" badge is not rendered. Every message that begins with "high"
  starts with "hi" once lower-cased, so "high fever" counts as non-medical and hides the
  badge.
\<close>

theorem C8_prefix_match_is_non_medical:
  "(role u = User \<and> (\<forall>m \<in> set post. role m \<noteq> User) \<and> p \<in> set nonMedicalPrefixes
      \<and> startsWith (toLowerCase tbl (content u)) p
    \<longrightarrow> isNonMedicalTurn tbl (pre @ u # post)
        \<and> \<not> previous_emergency_badge tbl (pre @ u # post))
   \<and> (role u = User \<and> (\<forall>m \<in> set post. role m \<noteq> User) \<and> content u = ''high'' @ rest
    \<longrightarrow> isNonMedicalTurn tbl (pre @ u # post)
        \<and> \<not> previous_emergency_badge tbl (pre @ u # post))
   \<and> (role u = User \<and> (\<forall>m \<in> set post. role m \<noteq> User)
    \<longrightarrow> (isNonMedicalTurn tbl (pre @ u # post) \<longleftrightarrow>
          (\<exists>q \<in> set nonMedicalPrefixes. startsWith (toLowerCase tbl (content u)) q)))"
proof -
  have exact: "isNonMedicalTurn tbl (pre @ u # post) \<longleftrightarrow>
          (\<exists>q \<in> set nonMedicalPrefixes. startsWith (toLowerCase tbl (content u)) q)"
    if "role u = User" and "\<forall>m \<in> set post. role m \<noteq> User"
    using isNonMedicalTurn_last_user [OF that, of tbl pre] by (simp add: list_ex_iff)
  have general: "isNonMedicalTurn tbl (pre @ u # post)"
    if "role u = User" and "\<forall>m \<in> set post. role m \<noteq> User"
      and "q \<in> set nonMedicalPrefixes" and "startsWith (toLowerCase tbl (content u)) q" for q
    using that exact by blast
  have high: "isNonMedicalTurn tbl (pre @ u # post)"
    if "role u = User" and "\<forall>m \<in> set post. role m \<noteq> User"
      and "content u = ''high'' @ rest"
  proof -
    have "''hi'' \<in> set nonMedicalPrefixes"
      by (simp add: nonMedicalPrefixes_def)
    moreover have "startsWith (toLowerCase tbl (content u)) ''hi''"
      using that(3) startsWith_high [of tbl rest] by simp
    ultimately show ?thesis
      using that(1,2) by (rule general [rotated 2])
  qed
  show ?thesis
    using general [of p] high exact by (auto simp: previous_emergency_badge_def)
qed

text \<open>
  The examples: "high fever" and "Thank you" after an emergency, a thanks written with
  the Kelvin sign in place of the letter k, and "severe fever", which shows the badge.
\<close>

theorem C8_prefix_match_is_non_medical_witness:
  "isNonMedicalTurn kelvin_table (emergency_then ''high fever'')
   \<and> \<not> previous_emergency_badge kelvin_table (emergency_then ''high fever'')
   \<and> isNonMedicalTurn kelvin_table (emergency_then ''Thank you'')
   \<and> isNonMedicalTurn kelvin_table
        (emergency_then (''than'' @ [CHR 0xE2, CHR 0x84, CHR 0xAA] @ '' you''))
   \<and> hadPreviousEmergency (emergency_then ''high fever'')
   \<and> conversationRisk (emergency_then ''high fever'') = ''low''
   \<and> \<not> isNonMedicalTurn kelvin_table (emergency_then ''severe fever'')
   \<and> previous_emergency_badge kelvin_table (emergency_then ''severe fever'')"
  using C8_prefix_match_is_non_medical
          [of "userMsg ''u2'' ''high fever''"
              "[assistantMsg ''r2'' (sample_response False 0.8)]" "''hi''" kelvin_table
              "take 2 (emergency_then ''high fever'')" "'' fever''"]
        C8_prefix_match_is_non_medical
          [of "userMsg ''u2'' (''than'' @ [CHR 0xE2, CHR 0x84, CHR 0xAA] @ '' you'')"
              "[assistantMsg ''r2'' (sample_response False 0.8)]" "''thank you''" kelvin_table
              "take 2 (emergency_then ''Thank you'')" "[]"]
  by (simp add: emergency_then_def userMsg_def assistantMsg_def sample_response_def
        blank_content_def flags_of_def previous_emergency_badge_def conversationRisk_def
        hadPreviousEmergency_def isNonMedicalTurn_def nonMedicalPrefixes_def
        toLowerCase_def toLowerChar_def is_ascii_def startsWith_def kelvin_table_def)

section \<open>Confidence fusion (decision core)\<close>

text \<open>
  The Confidence Fusion component and the Response Assembler's advisory rule are code of
  the back end, which is not among the sources; the front end only declares the fields
  \<open>rag_confidence\<close>, \<open>model_confidence\<close> and \<open>final_confidence\<close> of the explain-rag payload.
  The level of a risk verdict and the confidence record are those of section 3 of the
  specification.
\<close>

datatype risk = Low | High | Emergency

record ConfidenceRecord =
  retrieval_confidence :: "real option"
  generation_confidence :: real
  final_confidence :: real
  suppression_reason :: "string option"

text \<open>
  Modelled from the spec: \<open>fuse\<close> of the Confidence Fusion component (back-end code that
  is missing from the sources), after section 4.4: the final confidence is the minimum of
  the retrieval and the generation confidence when both are available, the generation
  confidence when retrieval was skipped; an emergency verdict tags the record with
  \<open>emergency_override\<close>.
\<close>

definition fuse :: "real option \<Rightarrow> real \<Rightarrow> risk \<Rightarrow> ConfidenceRecord" where
  "fuse retrieval generation verdict =
     \<lparr> retrieval_confidence = retrieval,
       generation_confidence = generation,
       final_confidence =
         (case retrieval of Some r \<Rightarrow> min r generation | None \<Rightarrow> generation),
       suppression_reason =
         (if verdict = Emergency then Some ''emergency_override'' else None) \<rparr>"

text \<open>
  Modelled from the spec: the Response Assembler's rule for the low-confidence advisory
  (back-end code that is missing from the sources), after section 4.4: the advisory is
  attached when the final confidence is below 0.4.
\<close>

definition advisory_attached :: "ConfidenceRecord \<Rightarrow> bool" where
  "advisory_attached cr = (final_confidence cr < 0.4)"

text \<open>
  C3. When both confidences are available the fused confidence is their minimum; for a
  retrieval confidence of 0.9 and a generation confidence of 0.3 it is 0.3, the advisory
  is attached, and the chat page renders its low-confidence warning on an assistant
  message that carries this score.
\<close>

theorem C3_fusion_is_minimum:
  "final_confidence (fuse (Some r) g v) = min r g
   \<and> final_confidence (fuse (Some 0.9) 0.3 v) = 0.3
   \<and> advisory_attached (fuse (Some 0.9) 0.3 v)
   \<and> low_confidence_warning
        (render_message
           (assistantMsg rid
              (sample_response False (final_confidence (fuse (Some 0.9) 0.3 v)))))"
  by (simp add: fuse_def advisory_attached_def render_message_def assistantMsg_def
        sample_response_def)

section \<open>The chat page as a state machine\<close>

text \<open>
  A thrown value: an \<open>Error\<close> with its message, or a value that has no \<open>message\<close>.
  \<open>message_or e d\<close> is \<open>e?.message ?? d\<close>.
\<close>

datatype js_error = JsError "string option"

definition message_or :: "js_error \<Rightarrow> string \<Rightarrow> string" where
  "message_or e d = (case e of JsError None \<Rightarrow> d | JsError (Some msg) \<Rightarrow> msg)"

text \<open>\<open>String(n)\<close> and \<open>`${n}`\<close> for an integer \<open>n\<close>: its decimal digits.\<close>

definition digit_char :: "nat \<Rightarrow> char" where
  "digit_char n = ''0123456789'' ! n"

fun nat_digits :: "nat \<Rightarrow> string" where
  "nat_digits n =
     (if n < 10 then [digit_char n] else nat_digits (n div 10) @ [digit_char (n mod 10)])"

declare nat_digits.simps [simp del]

definition String_int :: "int \<Rightarrow> string" where
  "String_int i = (if i < 0 then CHR ''-'' # nat_digits (nat (- i)) else nat_digits (nat i))"

record conversation =
  conv_id :: int
  conv_title :: string
  conv_created_at :: string
  conv_updated_at :: string

record server_message =
  sm_id :: int
  sm_role :: string
  sm_content :: string
  sm_created_at :: string

text \<open>The state of the page that \<open>onSend\<close>, "New Chat" and \<open>loadConversation\<close> touch.\<close>

record chat_state =
  messages :: "UIMessage list"
  input :: string
  sending :: bool
  activeConversationId :: "int option"
  conversations :: "conversation list"

text \<open>
  \<open>onSend\<close> runs in three pieces, cut at its two \<open>await\<close>s. \<open>onSend_begin\<close> is the code up to
  \<open>await sendChat\<close>. The function is created anew at every render and reads \<open>input\<close>,
  \<open>sending\<close> and \<open>activeConversationId\<close> from the state of that render (\<open>seen\<close>); its
  setters act on the current state (\<open>st\<close>), \<open>setMessages\<close> through a function of the
  current list. It returns the new state and the request it issues (the text and the
  active conversation), or no request when it returns early. \<open>onSend_reply\<close> is the code
  from the settling of \<open>sendChat\<close> (\<open>Inr\<close> a response, \<open>Inl\<close> a thrown value) up to
  \<open>await refreshConversations()\<close> on success, or through \<open>catch\<close> and \<open>finally\<close> on failure;
  its flag tells whether the refresh is now awaited. \<open>onSend_finish\<close> is the end of
  \<open>refreshConversations\<close>, which swallows its error, followed by \<open>finally\<close>. These two read
  nothing of the render.
\<close>

definition onSend_begin ::
  "string \<Rightarrow> string \<Rightarrow> chat_state \<Rightarrow> chat_state
    \<Rightarrow> chat_state \<times> (string \<times> int option) option" where
  "onSend_begin uid thinkingId seen st =
     (let txt = trim (input seen) in
      if txt = [] \<or> sending seen then (st, None)
      else (st\<lparr> input := [], sending := True,
                messages := messages st @ [userMsg uid txt, thinkingMsg thinkingId] \<rparr>,
            Some (txt, activeConversationId seen)))"

definition onSend_reply ::
  "string \<Rightarrow> string \<Rightarrow> js_error + ChatResponse \<Rightarrow> chat_state \<Rightarrow> chat_state \<times> bool" where
  "onSend_reply thinkingId rid outcome st =
     (case outcome of
        Inr res \<Rightarrow>
          (st\<lparr> activeConversationId := Some (res_conversation_id res),
               messages := filter (\<lambda>m. msg_id m \<noteq> thinkingId) (messages st)
                             @ [assistantMsg rid res] \<rparr>,
           True)
      | Inl e \<Rightarrow>
          (st\<lparr> messages := filter (\<lambda>m. msg_id m \<noteq> thinkingId) (messages st)
                             @ [failureMsg rid],
               sending := False \<rparr>,
           False))"

definition onSend_finish :: "js_error + conversation list \<Rightarrow> chat_state \<Rightarrow> chat_state" where
  "onSend_finish refreshed st =
     (case refreshed of
        Inr list \<Rightarrow> st\<lparr> conversations := list, sending := False \<rparr>
      | Inl e \<Rightarrow> st\<lparr> sending := False \<rparr>)"

text \<open>\<open>loadConversation\<close> once \<open>getConversation\<close> has settled.\<close>

definition mapped_message :: "server_message \<Rightarrow> UIMessage" where
  "mapped_message m =
     \<lparr> msg_id = String_int (sm_id m),
       role = (if sm_role m = ''user'' then User else Assistant),
       content = sm_content m, chat_message_id = Some (sm_id m), citations = None,
       emergency_detected = None, risk_level = None, confidence_score = None,
       model_mode = None \<rparr>"

definition loadConversation_done ::
  "js_error + server_message list option \<Rightarrow> chat_state \<Rightarrow> chat_state" where
  "loadConversation_done outcome st =
     (case outcome of
        Inr ms \<Rightarrow> st\<lparr> messages := map mapped_message (case ms of None \<Rightarrow> [] | Some l \<Rightarrow> l) \<rparr>
      | Inl e \<Rightarrow> st\<lparr> messages := [] \<rparr>)"

text \<open>
  The page: its current state, the state of its last render (the one the handlers now
  attached were created in), and what it is waiting for: the placeholder identifiers of
  the \<open>sendChat\<close> calls that have not settled, and the number of turns inside
  \<open>refreshConversations\<close>. \<open>Render\<close> is React rendering the component again. An event
  that is not enabled leaves the page as it is.
\<close>

record page =
  ui :: chat_state
  rendered :: chat_state
  awaiting :: "string list"
  refreshing :: nat

datatype event =
    SetInput string
  | Send string string
  | Reply string string "js_error + ChatResponse"
  | Refreshed "js_error + conversation list"
  | NewChat
  | Select int
  | Loaded "js_error + server_message list option"
  | Render

fun step :: "page \<Rightarrow> event \<Rightarrow> page" where
  "step p (SetInput s) = p\<lparr> ui := (ui p)\<lparr> input := s \<rparr> \<rparr>"
| "step p (Send uid thinkingId) =
     (case onSend_begin uid thinkingId (rendered p) (ui p) of
        (st, None) \<Rightarrow> p\<lparr> ui := st \<rparr>
      | (st, Some req) \<Rightarrow> p\<lparr> ui := st, awaiting := awaiting p @ [thinkingId] \<rparr>)"
| "step p (Reply thinkingId rid outcome) =
     (if thinkingId \<in> set (awaiting p)
      then (case onSend_reply thinkingId rid outcome (ui p) of
              (st, refresh) \<Rightarrow>
                p\<lparr> ui := st, awaiting := remove1 thinkingId (awaiting p),
                   refreshing := refreshing p + (if refresh then 1 else 0) \<rparr>)
      else p)"
| "step p (Refreshed r) =
     (if refreshing p > 0
      then p\<lparr> ui := onSend_finish r (ui p), refreshing := refreshing p - 1 \<rparr>
      else p)"
| "step p NewChat = p\<lparr> ui := (ui p)\<lparr> activeConversationId := None, messages := [] \<rparr> \<rparr>"
| "step p (Select cid) = p\<lparr> ui := (ui p)\<lparr> activeConversationId := Some cid \<rparr> \<rparr>"
| "step p (Loaded outcome) = p\<lparr> ui := loadConversation_done outcome (ui p) \<rparr>"
| "step p Render = p\<lparr> rendered := ui p \<rparr>"

definition state0 :: chat_state where
  "state0 =
     \<lparr> messages = [], input = [], sending = False, activeConversationId = None,
       conversations = [] \<rparr>"

definition page0 :: page where
  "page0 = \<lparr> ui = state0, rendered = state0, awaiting = [], refreshing = 0 \<rparr>"

definition run :: "event list \<Rightarrow> page" where
  "run evs = foldl step page0 evs"

text \<open>
  The same with a render after every event, so that every handler runs in the render of
  the current state.
\<close>

definition step_rendered :: "page \<Rightarrow> event \<Rightarrow> page" where
  "step_rendered p ev = step (step p ev) Render"

definition run_rendered :: "event list \<Rightarrow> page" where
  "run_rendered evs = foldl step_rendered page0 evs"

text \<open>
  The placeholder is the assistant message "Thinking..." that has no \<open>chat_message_id\<close>
  (a reply and a loaded message always have one). The invariant: at most one turn is
  pending, \<open>sending\<close> is set exactly while one is, and every placeholder in the list belongs
  to a \<open>sendChat\<close> call that has not settled.
\<close>

definition is_placeholder :: "UIMessage \<Rightarrow> bool" where
  "is_placeholder m =
     (role m = Assistant \<and> content m = ''Thinking...'' \<and> chat_message_id m = None)"

definition send_inv :: "page \<Rightarrow> bool" where
  "send_inv p =
     (length (awaiting p) + refreshing p \<le> 1
      \<and> (sending (ui p) \<longleftrightarrow> length (awaiting p) + refreshing p = 1)
      \<and> list_all (\<lambda>m. is_placeholder m \<longrightarrow> msg_id m \<in> set (awaiting p)) (messages (ui p)))"

section \<open>Properties of sending a turn\<close>

lemma trim_examples:
  "trim ''hello'' = ''hello''"
  "trim ''  I feel dizzy  '' = ''I feel dizzy''"
  "trim [CHR 0xC2, CHR 0xA0] = []"
  by code_simp+

lemma awaiting_single:
  assumes "length xs + n \<le> (1::nat)" and "t \<in> set xs"
  shows "xs = [t] \<and> n = 0"
  using assms by (cases xs) auto

lemma not_placeholder_simps:
  "\<not> is_placeholder (userMsg uid txt)"
  "\<not> is_placeholder (assistantMsg rid res)"
  "\<not> is_placeholder (failureMsg rid)"
  "\<not> is_placeholder (mapped_message sm)"
  by (simp_all add: is_placeholder_def userMsg_def assistantMsg_def failureMsg_def
        mapped_message_def)

lemma is_placeholder_thinkingMsg: "is_placeholder (thinkingMsg tid)"
  by (simp add: is_placeholder_def thinkingMsg_def)

lemma msg_id_simps:
  "msg_id (userMsg uid txt) = uid"
  "msg_id (thinkingMsg tid) = tid"
  "msg_id (assistantMsg rid res) = rid"
  "msg_id (failureMsg rid) = rid"
  by (simp_all add: userMsg_def thinkingMsg_def assistantMsg_def failureMsg_def)

text \<open>What one call of \<open>onSend\<close> does, and what the settling of its request does.\<close>

lemma onSend_begin_noop:
  "trim (input seen) = [] \<or> sending seen \<Longrightarrow> onSend_begin uid tid seen st = (st, None)"
  by (auto simp: onSend_begin_def)

lemma onSend_begin_go:
  "trim (input seen) \<noteq> [] \<Longrightarrow> \<not> sending seen \<Longrightarrow>
   onSend_begin uid tid seen st =
     (st\<lparr> input := [], sending := True,
          messages := messages st @ [userMsg uid (trim (input seen)), thinkingMsg tid] \<rparr>,
      Some (trim (input seen), activeConversationId seen))"
  by (simp add: onSend_begin_def Let_def)

lemma onSend_reply_messages:
  "messages (fst (onSend_reply tid rid out st)) =
     filter (\<lambda>m. msg_id m \<noteq> tid) (messages st)
       @ [case out of Inl e \<Rightarrow> failureMsg rid | Inr res \<Rightarrow> assistantMsg rid res]"
  by (cases out) (simp_all add: onSend_reply_def)

lemma onSend_turn_messages:
  assumes "trim (input seen) \<noteq> []" and "\<not> sending seen" and "tid \<noteq> uid"
    and "tid \<notin> msg_id ` set (messages st)"
  shows "messages (fst (onSend_reply tid rid out (fst (onSend_begin uid tid seen st)))) =
           messages st @ [userMsg uid (trim (input seen)),
             case out of Inl e \<Rightarrow> failureMsg rid | Inr res \<Rightarrow> assistantMsg rid res]"
proof -
  have "filter (\<lambda>m. msg_id m \<noteq> tid) (messages st) = messages st"
    using assms(4) by (auto simp: filter_id_conv)
  then show ?thesis
    using assms(1-3)
    by (simp add: onSend_reply_messages onSend_begin_go msg_id_simps)
qed

text \<open>
  When every handler runs in the render of the current state, the invariant holds along
  every sequence of events.
\<close>

lemma send_inv_Send:
  assumes "send_inv p" and "rendered p = ui p"
  shows "send_inv (step p (Send uid tid))"
proof (cases "trim (input (ui p)) = [] \<or> sending (ui p)")
  case True
  then have "step p (Send uid tid) = p"
    using assms(2) by (auto simp: onSend_begin_def)
  then show ?thesis using assms(1) by simp
next
  case False
  then have "length (awaiting p) + refreshing p \<le> 1"
    and "length (awaiting p) + refreshing p \<noteq> 1"
    using assms(1) by (simp_all add: send_inv_def)
  then have "length (awaiting p) + refreshing p = 0"
    by linarith
  then have idle: "awaiting p = []" "refreshing p = 0"
    by simp_all
  from False have "step p (Send uid tid) =
      p\<lparr> ui := (ui p)\<lparr> input := [], sending := True,
              messages := messages (ui p)
                @ [userMsg uid (trim (input (ui p))), thinkingMsg tid] \<rparr>,
         awaiting := awaiting p @ [tid] \<rparr>"
    using assms(2) by (simp add: onSend_begin_def Let_def)
  then show ?thesis
    using assms(1) idle
    by (auto simp: send_inv_def not_placeholder_simps msg_id_simps list_all_iff)
qed

lemma placeholders_filtered:
  "list_all (\<lambda>m. is_placeholder m \<longrightarrow> msg_id m \<in> set [tid]) ms \<Longrightarrow>
   list_all (\<lambda>m. \<not> is_placeholder m) (filter (\<lambda>m. msg_id m \<noteq> tid) ms)"
  by (induction ms) auto

lemma send_inv_Reply:
  assumes "send_inv p"
  shows "send_inv (step p (Reply tid rid out))"
proof (cases "tid \<in> set (awaiting p)")
  case False
  then show ?thesis using assms by simp
next
  case True
  then have one: "awaiting p = [tid]" "refreshing p = 0"
    using assms awaiting_single [of "awaiting p" "refreshing p" tid]
    by (simp_all add: send_inv_def)
  have busy: "sending (ui p)"
    using assms one by (simp add: send_inv_def)
  have "list_all (\<lambda>m. is_placeholder m \<longrightarrow> msg_id m \<in> set [tid]) (messages (ui p))"
    using assms one by (simp add: send_inv_def)
  then have gone:
    "list_all (\<lambda>m. \<not> is_placeholder m)
       (filter (\<lambda>m. msg_id m \<noteq> tid) (messages (ui p)))"
    by (rule placeholders_filtered)
  show ?thesis
  proof (cases out)
    case (Inl e)
    then have "step p (Reply tid rid out) =
        p\<lparr> ui := (ui p)\<lparr> messages := filter (\<lambda>m. msg_id m \<noteq> tid) (messages (ui p))
                                       @ [failureMsg rid],
                         sending := False \<rparr>,
           awaiting := [], refreshing := 0 \<rparr>"
      using True one by (simp add: onSend_reply_def)
    then show ?thesis
      using gone by (simp add: send_inv_def not_placeholder_simps)
  next
    case (Inr res)
    then have "step p (Reply tid rid out) =
        p\<lparr> ui := (ui p)\<lparr> activeConversationId := Some (res_conversation_id res),
                         messages := filter (\<lambda>m. msg_id m \<noteq> tid) (messages (ui p))
                                       @ [assistantMsg rid res] \<rparr>,
           awaiting := [], refreshing := 1 \<rparr>"
      using True one by (simp add: onSend_reply_def)
    then show ?thesis
      using gone busy by (simp add: send_inv_def not_placeholder_simps)
  qed
qed

lemma send_inv_Refreshed:
  assumes "send_inv p"
  shows "send_inv (step p (Refreshed r))"
proof (cases "refreshing p > 0")
  case False
  then show ?thesis using assms by simp
next
  case True
  moreover have "length (awaiting p) + refreshing p \<le> 1"
    using assms by (simp add: send_inv_def)
  ultimately have "refreshing p = 1" and "length (awaiting p) = 0"
    by linarith+
  then have "refreshing p = 1" and "awaiting p = []"
    by simp_all
  then show ?thesis
    using assms by (cases r) (simp_all add: send_inv_def onSend_finish_def)
qed

lemma send_inv_Loaded:
  assumes "send_inv p"
  shows "send_inv (step p (Loaded outcome))"
proof -
  have "list_all (\<lambda>m. is_placeholder m \<longrightarrow> msg_id m \<in> set (awaiting p))
          (map mapped_message l)" for l
    by (induction l) (simp_all add: not_placeholder_simps)
  then have "list_all (\<lambda>m. is_placeholder m \<longrightarrow> msg_id m \<in> set (awaiting p))
          (messages (loadConversation_done outcome (ui p)))"
    by (simp add: loadConversation_done_def split: sum.splits option.splits)
  moreover have "sending (loadConversation_done outcome (ui p)) = sending (ui p)"
    by (simp add: loadConversation_done_def split: sum.splits)
  ultimately show ?thesis
    using assms by (simp add: send_inv_def)
qed

lemma send_inv_step:
  assumes "send_inv p" and "rendered p = ui p"
  shows "send_inv (step p ev)"
proof (cases ev)
  case (SetInput s)
  then show ?thesis using assms(1) by (simp add: send_inv_def)
next
  case (Send uid tid)
  then show ?thesis using assms send_inv_Send by simp
next
  case (Reply tid rid out)
  then show ?thesis using assms(1) send_inv_Reply by simp
next
  case (Refreshed r)
  then show ?thesis using assms(1) send_inv_Refreshed by simp
next
  case NewChat
  then show ?thesis using assms(1) by (simp add: send_inv_def)
next
  case (Select cid)
  then show ?thesis using assms(1) by (simp add: send_inv_def)
next
  case (Loaded outcome)
  then show ?thesis using assms(1) send_inv_Loaded by simp
next
  case Render
  then show ?thesis using assms(1) by (simp add: send_inv_def)
qed

lemma send_inv_step_rendered:
  assumes "send_inv p" and "rendered p = ui p"
  shows "send_inv (step_rendered p ev) \<and> rendered (step_rendered p ev) = ui (step_rendered p ev)"
  using send_inv_step [OF assms, of ev]
  by (simp add: step_rendered_def send_inv_def)

lemma send_inv_foldl_rendered:
  "send_inv p \<Longrightarrow> rendered p = ui p \<Longrightarrow>
   send_inv (foldl step_rendered p evs)
   \<and> rendered (foldl step_rendered p evs) = ui (foldl step_rendered p evs)"
  by (induction evs arbitrary: p) (simp_all add: send_inv_step_rendered)

lemma send_inv_run_rendered: "send_inv (run_rendered evs)"
  using send_inv_foldl_rendered [of page0 evs]
  by (simp add: run_rendered_def send_inv_def page0_def state0_def)

lemma settled_no_placeholder:
  assumes "send_inv p" and "awaiting p = []"
  shows "\<not> list_ex is_placeholder (messages (ui p))"
  using assms by (auto simp: send_inv_def list_all_iff list_ex_iff)

text \<open>
  C9. Without a render between them, two calls of \<open>onSend\<close> both pass the guard: the
  user types "hello", the page renders, and \<open>onSend\<close> is called twice from that render.
  After the first call \<open>sending\<close> is set in the state, yet the second call, which reads the
  render, sends again: two requests are awaited and the user message and a placeholder
  are in the list twice. With a render between the two calls the second does nothing.
\<close>

definition double_send :: "event list" where
  "double_send = [SetInput ''hello'', Render, Send ''u1'' ''t1'', Send ''u2'' ''t2'']"


lemma double_send_breaks_invariant: "\<not> send_inv (run double_send)"
  by (simp add: double_send_def run_def page0_def state0_def onSend_begin_def Let_def
        trim_examples send_inv_def)

section \<open>The API helpers (lib/api.ts)\<close>

text \<open>
  A parsed JSON value. An object keeps its members in the order of the text; \<open>member\<close> is
  the property read \<open>data?.k\<close> (the last of several members of one name wins, as in
  \<open>JSON.parse\<close>; a value that is not an object has no such property).
\<close>

datatype json =
    JNull
  | JBool bool
  | JNum real
  | JStr string
  | JArr "json list"
  | JObj "(string \<times> json) list"

definition member :: "json \<Rightarrow> string \<Rightarrow> json option" where
  "member data k = (case data of JObj kvs \<Rightarrow> map_of (rev kvs) k | _ \<Rightarrow> None)"

definition truthy_json :: "json \<Rightarrow> bool" where
  "truthy_json v =
     (case v of JNull \<Rightarrow> False | JBool b \<Rightarrow> b | JNum n \<Rightarrow> n \<noteq> 0 | JStr s \<Rightarrow> s \<noteq> []
      | JArr xs \<Rightarrow> True | JObj kvs \<Rightarrow> True)"

record request =
  url :: string
  http_method :: string
  headers :: "string \<rightharpoonup> string"
  body :: "string option"

text \<open>
  A response: \<open>json_result\<close> and \<open>text_result\<close> are what \<open>res.json()\<close> and \<open>res.text()\<close>
  settle with.
\<close>

record response =
  ok :: bool
  status :: nat
  json_result :: "js_error + json"
  text_result :: "js_error + string"

text \<open>
  What the helpers take from their surroundings: the base address (\<open>None\<close> when the
  environment variable is not set), the network (\<open>fetch\<close> answers a request given the
  requests sent before it, or rejects), and the built-ins \<open>JSON.stringify\<close>, \<open>String\<close> on
  a JSON value and \<open>URLSearchParams.toString\<close>.
\<close>

record env =
  API_BASE :: "string option"
  fetch :: "request list \<Rightarrow> request \<Rightarrow> js_error + response"
  stringify :: "json \<Rightarrow> string"
  jsString :: "json \<Rightarrow> string"
  formEncode :: "(string \<times> string) list \<Rightarrow> string"

text \<open>
  The browser side: \<open>localStorage\<close>, whether \<open>window\<close> is defined, and the log of the
  requests handed to \<open>fetch\<close>.
\<close>

record world =
  storage :: "string \<rightharpoonup> string"
  window_defined :: bool
  sent :: "request list"

definition base_url :: "env \<Rightarrow> string" where
  "base_url e = (case API_BASE e of None \<Rightarrow> ''undefined'' | Some b \<Rightarrow> b)"

definition getToken :: "world \<Rightarrow> string option" where
  "getToken w = (if \<not> window_defined w then None else storage w ''medibot_token'')"

definition setToken :: "string \<Rightarrow> world \<Rightarrow> world" where
  "setToken token w = w\<lparr> storage := (storage w)(''medibot_token'' \<mapsto> token) \<rparr>"

definition clearToken :: "world \<Rightarrow> world" where
  "clearToken w = w\<lparr> storage := (storage w)(''medibot_token'' := None) \<rparr>"

definition readErrorMessage :: "env \<Rightarrow> response \<Rightarrow> string" where
  "readErrorMessage e res =
     (case json_result res of
        Inr data \<Rightarrow>
          (case member data ''detail'' of
             Some (JStr s) \<Rightarrow> s
           | Some (JArr xs) \<Rightarrow> stringify e (JArr xs)
           | _ \<Rightarrow> stringify e data)
      | Inl err \<Rightarrow>
          (case text_result res of
             Inr txt \<Rightarrow> if txt \<noteq> [] then txt else ''Request failed: '' @ nat_digits (status res)
           | Inl err' \<Rightarrow> ''Request failed: '' @ nat_digits (status res)))"

record options =
  opt_method :: string
  opt_headers :: "string \<rightharpoonup> string"
  opt_body :: "string option"

text \<open>\<open>fetch\<close> is called: the request is logged, then the network answers.\<close>

definition do_fetch :: "env \<Rightarrow> request \<Rightarrow> world \<Rightarrow> world \<times> (js_error + response)" where
  "do_fetch e req w = (w\<lparr> sent := sent w @ [req] \<rparr>, fetch e (sent w) req)"

definition apiFetch ::
  "env \<Rightarrow> string \<Rightarrow> options \<Rightarrow> bool \<Rightarrow> world \<Rightarrow> world \<times> (js_error + json)" where
  "apiFetch e path opts auth w =
     (let h0 = opt_headers opts;
          h1 = (if \<not> truthy_str (h0 ''Content-Type'') \<and> truthy_str (opt_body opts)
                then h0(''Content-Type'' \<mapsto> ''application/json'') else h0)
      in if auth \<and> \<not> truthy_str (getToken w)
         then (w, Inl (JsError (Some ''Not authenticated'')))
         else
           (let h2 = (if auth
                      then (case getToken w of
                              Some token \<Rightarrow> h1(''Authorization'' \<mapsto> ''Bearer '' @ token)
                            | None \<Rightarrow> h1)
                      else h1);
                req = \<lparr> url = base_url e @ path, http_method = opt_method opts,
                        headers = h2, body = opt_body opts \<rparr>
            in case do_fetch e req w of
                 (w', Inl err) \<Rightarrow> (w', Inl err)
               | (w', Inr res) \<Rightarrow>
                   if \<not> ok res then (w', Inl (JsError (Some (readErrorMessage e res))))
                   else (w', json_result res)))"

definition login_request :: "env \<Rightarrow> string \<Rightarrow> string \<Rightarrow> request" where
  "login_request e email password =
     \<lparr> url = base_url e @ ''/api/v1/auth/login'', http_method = ''POST'',
       headers = [''Content-Type'' \<mapsto> ''application/x-www-form-urlencoded''],
       body = Some (formEncode e [(''username'', email), (''password'', password)]) \<rparr>"

text \<open>\<open>err?.detail || d\<close> as the message of \<open>new Error(...)\<close>, \<open>err\<close> from \<open>res.json().catch(() => null)\<close>.\<close>

definition detail_or :: "env \<Rightarrow> js_error + json \<Rightarrow> string \<Rightarrow> string" where
  "detail_or e parsed d =
     (case parsed of
        Inl err \<Rightarrow> d
      | Inr data \<Rightarrow>
          (case member data ''detail'' of
             None \<Rightarrow> d
           | Some v \<Rightarrow> if \<not> truthy_json v then d
                       else (case v of JStr s \<Rightarrow> s | _ \<Rightarrow> jsString e v)))"

text \<open>
  \<open>login\<close>. Reading \<open>access_token\<close> of \<open>null\<close> throws; \<open>localStorage.setItem\<close> stores the
  string conversion of what it is given (\<open>undefined\<close> for a missing member), and throws
  where \<open>window\<close> is not defined.
\<close>

definition login :: "env \<Rightarrow> string \<Rightarrow> string \<Rightarrow> world \<Rightarrow> world \<times> (js_error + json)" where
  "login e email password w =
     (case do_fetch e (login_request e email password) w of
        (w', Inl err) \<Rightarrow> (w', Inl err)
      | (w', Inr res) \<Rightarrow>
          if \<not> ok res
          then (w', Inl (JsError (Some (detail_or e (json_result res) ''Invalid email or password''))))
          else (case json_result res of
                  Inl err \<Rightarrow> (w', Inl err)
                | Inr JNull \<Rightarrow> (w', Inl (JsError (Some ''Cannot read properties of null'')))
                | Inr data \<Rightarrow>
                    if \<not> window_defined w'
                    then (w', Inl (JsError (Some ''localStorage is not defined'')))
                    else (setToken (case member data ''access_token'' of
                                      None \<Rightarrow> ''undefined''
                                    | Some (JStr t) \<Rightarrow> t
                                    | Some v \<Rightarrow> jsString e v) w',
                          Inr data)))"

definition sendChat ::
  "env \<Rightarrow> string \<Rightarrow> int option \<Rightarrow> world \<Rightarrow> world \<times> (js_error + json)" where
  "sendChat e message cid =
     apiFetch e ''/api/v1/chat''
       \<lparr> opt_method = ''POST'', opt_headers = Map.empty,
         opt_body = Some (stringify e (JObj ((''message'', JStr message) #
                      (case cid of None \<Rightarrow> []
                       | Some c \<Rightarrow> [(''conversation_id'', JNum (real_of_int c))])))) \<rparr>
       True"

definition get_options :: options where
  "get_options = \<lparr> opt_method = ''GET'', opt_headers = Map.empty, opt_body = None \<rparr>"

definition explain :: "env \<Rightarrow> int \<Rightarrow> world \<Rightarrow> world \<times> (js_error + json)" where
  "explain e mid =
     apiFetch e (''/api/v1/chat/'' @ String_int mid @ ''/explain'') get_options True"

definition explainRag :: "env \<Rightarrow> int \<Rightarrow> world \<Rightarrow> world \<times> (js_error + json)" where
  "explainRag e mid =
     apiFetch e (''/api/v1/chat/'' @ String_int mid @ ''/explain-rag'')
       get_options True"

definition listConversations :: "env \<Rightarrow> world \<Rightarrow> world \<times> (js_error + json)" where
  "listConversations e = apiFetch e ''/api/v1/conversations'' get_options True"

definition getConversation :: "env \<Rightarrow> int \<Rightarrow> world \<Rightarrow> world \<times> (js_error + json)" where
  "getConversation e cid =
     apiFetch e (''/api/v1/conversations/'' @ String_int cid) get_options True"

definition escalateToDoctor :: "env \<Rightarrow> int \<Rightarrow> world \<Rightarrow> world \<times> (js_error + json)" where
  "escalateToDoctor e mid =
     apiFetch e (''/api/v1/chat/'' @ String_int mid @ ''/escalate'')
       \<lparr> opt_method = ''POST'', opt_headers = Map.empty, opt_body = None \<rparr> True"

definition listEscalations :: "env \<Rightarrow> world \<Rightarrow> world \<times> (js_error + json)" where
  "listEscalations e = apiFetch e ''/api/v1/escalations'' get_options True"

definition resolveEscalation :: "env \<Rightarrow> int \<Rightarrow> world \<Rightarrow> world \<times> (js_error + json)" where
  "resolveEscalation e i =
     apiFetch e (''/api/v1/escalations/'' @ String_int i @ ''/resolve'')
       \<lparr> opt_method = ''PATCH'', opt_headers = Map.empty, opt_body = None \<rparr> True"

text \<open>The eight helpers that pass \<open>auth = true\<close>, as one type of calls.\<close>

datatype api_call =
    SendChat string "int option"
  | Explain int
  | ExplainRag int
  | ListConversations
  | GetConversation int
  | EscalateToDoctor int
  | ListEscalations
  | ResolveEscalation int

fun call :: "env \<Rightarrow> api_call \<Rightarrow> world \<Rightarrow> world \<times> (js_error + json)" where
  "call e (SendChat message cid) = sendChat e message cid"
| "call e (Explain i) = explain e i"
| "call e (ExplainRag i) = explainRag e i"
| "call e ListConversations = listConversations e"
| "call e (GetConversation i) = getConversation e i"
| "call e (EscalateToDoctor i) = escalateToDoctor e i"
| "call e ListEscalations = listEscalations e"
| "call e (ResolveEscalation i) = resolveEscalation e i"

section \<open>The escalations page\<close>

record Escalation =
  esc_id :: int
  conversation_id :: int
  reason :: string
  esc_notes :: string
  resolved :: bool
  created_at :: string

text \<open>
  The page's state and the texts it has shown through \<open>alert\<close>. \<open>load_done\<close> is \<open>load\<close> once
  \<open>listEscalations\<close> has settled; \<open>onResolve\<close> takes what \<open>resolveEscalation\<close> and, on
  success, the \<open>load\<close> that follows settle with.
\<close>

record escalations_page =
  items :: "Escalation list"
  loading :: bool
  error :: "string option"
  resolvingId :: "int option"
  alerts :: "string list"

definition load_done :: "js_error + Escalation list \<Rightarrow> escalations_page \<Rightarrow> escalations_page" where
  "load_done outcome pg =
     (case outcome of
        Inr data \<Rightarrow> pg\<lparr> items := data, loading := False \<rparr>
      | Inl e \<Rightarrow> pg\<lparr> error := Some (message_or e ''Failed to load escalations''),
                      loading := False \<rparr>)"

definition onResolve ::
  "int \<Rightarrow> js_error + unit \<Rightarrow> js_error + Escalation list \<Rightarrow> escalations_page
    \<Rightarrow> escalations_page" where
  "onResolve i resolve_outcome load_outcome pg =
     (case resolve_outcome of
        Inr u \<Rightarrow> (load_done load_outcome (pg\<lparr> resolvingId := Some i \<rparr>))\<lparr> resolvingId := None \<rparr>
      | Inl e \<Rightarrow> pg\<lparr> alerts := alerts pg @ [message_or e ''Failed to resolve escalation''],
                      resolvingId := None \<rparr>)"

text \<open>The settling of an awaited helper whose value the caller does not read.\<close>

definition settled :: "js_error + json \<Rightarrow> js_error + unit" where
  "settled r = (case r of Inl e \<Rightarrow> Inl e | Inr v \<Rightarrow> Inr ())"

section \<open>Properties of the API helpers\<close>

lemma apiFetch_not_authenticated:
  assumes "\<not> truthy_str (getToken w)"
  shows "apiFetch e path opts True w = (w, Inl (JsError (Some ''Not authenticated'')))"
  using assms by (simp add: apiFetch_def Let_def)

lemma apiFetch_sends_bearer:
  assumes "getToken w = Some tok" and "tok \<noteq> []"
  shows "\<exists>r. sent (fst (apiFetch e path opts True w)) = sent w @ [r]
             \<and> headers r ''Authorization'' = Some (''Bearer '' @ tok)"
proof -
  define h1 where "h1 =
    (if \<not> truthy_str (opt_headers opts ''Content-Type'') \<and> truthy_str (opt_body opts)
     then (opt_headers opts)(''Content-Type'' \<mapsto> ''application/json'') else opt_headers opts)"
  define req where "req =
    \<lparr> url = base_url e @ path, http_method = opt_method opts,
      headers = h1(''Authorization'' \<mapsto> ''Bearer '' @ tok), body = opt_body opts \<rparr>"
  have "fst (apiFetch e path opts True w) = w\<lparr> sent := sent w @ [req] \<rparr>"
    using assms
    by (simp add: apiFetch_def Let_def do_fetch_def truthy_str_def h1_def req_def
          split: sum.splits)
  then show ?thesis
    by (simp add: req_def)
qed

lemma call_is_apiFetch:
  "\<exists>path opts. call e c = apiFetch e path opts True"
  by (cases c)
     (auto simp: sendChat_def explain_def explainRag_def listConversations_def
        getConversation_def escalateToDoctor_def listEscalations_def resolveEscalation_def)

lemma call_not_authenticated:
  assumes "\<not> truthy_str (getToken w)"
  shows "call e c w = (w, Inl (JsError (Some ''Not authenticated'')))"
  using call_is_apiFetch [of e c] apiFetch_not_authenticated [OF assms] by auto

lemma call_sends_bearer:
  assumes "getToken w = Some tok" and "tok \<noteq> []"
  shows "\<exists>r. sent (fst (call e c w)) = sent w @ [r]
             \<and> headers r ''Authorization'' = Some (''Bearer '' @ tok)"
  using call_is_apiFetch [of e c] apiFetch_sends_bearer [OF assms] by auto

lemma login_stores_token:
  assumes "fetch e (sent w) (login_request e email password) = Inr res"
    and "ok res" and "json_result res = Inr data"
    and "member data ''access_token'' = Some (JStr tok)" and "window_defined w"
  shows "login e email password w =
           (setToken tok (w\<lparr> sent := sent w @ [login_request e email password] \<rparr>), Inr data)"
proof -
  obtain kvs where "data = JObj kvs"
    using assms(4) by (cases data) (simp_all add: member_def)
  then show ?thesis
    using assms by (simp add: login_def do_fetch_def)
qed

lemma getToken_setToken:
  "window_defined w \<Longrightarrow> getToken (setToken tok w) = Some tok"
  by (simp add: getToken_def setToken_def)


text \<open>
  C10. Each of the eight authenticated helpers, called while nothing (or the empty string)
  is stored under \<open>medibot_token\<close>, throws "Not authenticated" and leaves the world as it
  was: no request is handed to \<open>fetch\<close>. A login whose response is \<open>ok\<close> and carries the string
  \<open>access_token\<close> stores that string, so that \<open>getToken\<close> returns it; and a helper called
  while a non-empty token is stored sends exactly one request, whose \<open>Authorization\<close>
  header is "Bearer " followed by the token.
\<close>

theorem C10_authenticated_helpers:
  "(storage w ''medibot_token'' = None \<or> storage w ''medibot_token'' = Some [] \<longrightarrow>
      call e c w = (w, Inl (JsError (Some ''Not authenticated''))))
   \<and> (fetch e (sent w) (login_request e email password) = Inr res \<and> ok res
        \<and> json_result res = Inr data \<and> member data ''access_token'' = Some (JStr tok)
        \<and> window_defined w \<longrightarrow>
        snd (login e email password w) = Inr data
        \<and> storage (fst (login e email password w)) ''medibot_token'' = Some tok
        \<and> getToken (fst (login e email password w)) = Some tok)
   \<and> (getToken w = Some tok \<and> tok \<noteq> [] \<longrightarrow>
        (\<exists>r. sent (fst (call e c w)) = sent w @ [r]
             \<and> headers r ''Authorization'' = Some (''Bearer '' @ tok)))"
proof (intro conjI impI)
  assume "storage w ''medibot_token'' = None \<or> storage w ''medibot_token'' = Some []"
  then have "\<not> truthy_str (getToken w)"
    by (auto simp: getToken_def truthy_str_def)
  then show "call e c w = (w, Inl (JsError (Some ''Not authenticated'')))"
    by (rule call_not_authenticated)
next
  assume a: "fetch e (sent w) (login_request e email password) = Inr res \<and> ok res
        \<and> json_result res = Inr data \<and> member data ''access_token'' = Some (JStr tok)
        \<and> window_defined w"
  then have l: "login e email password w =
      (setToken tok (w\<lparr> sent := sent w @ [login_request e email password] \<rparr>), Inr data)"
    using login_stores_token [of e w email password res data tok] by blast
  show "snd (login e email password w) = Inr data"
    by (simp add: l)
  show "storage (fst (login e email password w)) ''medibot_token'' = Some tok"
    by (simp add: l setToken_def)
  show "getToken (fst (login e email password w)) = Some tok"
    using a by (simp add: l getToken_def setToken_def)
next
  assume "getToken w = Some tok \<and> tok \<noteq> []"
  then show "\<exists>r. sent (fst (call e c w)) = sent w @ [r]
             \<and> headers r ''Authorization'' = Some (''Bearer '' @ tok)"
    using call_sends_bearer [of w tok e c] by blast
qed

text \<open>
  A browser with an empty \<open>localStorage\<close>, and a server that answers the login request
  with a token and anything else with an empty list.
\<close>

definition fresh_browser :: world where
  "fresh_browser = \<lparr> storage = Map.empty, window_defined = True, sent = [] \<rparr>"

definition token_response :: response where
  "token_response =
     \<lparr> ok = True, status = 200,
       json_result = Inr (JObj [(''access_token'', JStr ''tok123''),
                                (''token_type'', JStr ''bearer'')]),
       text_result = Inl (JsError (Some ''body already read'')) \<rparr>"

definition sample_env :: "(request \<Rightarrow> js_error + response) \<Rightarrow> env" where
  "sample_env server =
     \<lparr> API_BASE = Some ''http://localhost:8000'',
       fetch = (\<lambda>before req. server req),
       stringify = (\<lambda>v. ''{}''),
       jsString = (\<lambda>v. ''[object Object]''),
       formEncode = (\<lambda>kvs. concat (map (\<lambda>(k, v). k @ ''='' @ v @ ''&'') kvs)) \<rparr>"

definition login_server :: "request \<Rightarrow> js_error + response" where
  "login_server req =
     (if url req = ''http://localhost:8000/api/v1/auth/login'' then Inr token_response
      else Inr \<lparr> ok = True, status = 200, json_result = Inr (JArr []),
                 text_result = Inl (JsError (Some ''body already read'')) \<rparr>)"

theorem C10_authenticated_helpers_witness:
  "call (sample_env login_server) (ResolveEscalation 7) fresh_browser
     = (fresh_browser, Inl (JsError (Some ''Not authenticated'')))
   \<and> getToken (fst (login (sample_env login_server) ''a@b.c'' ''pw'' fresh_browser))
     = Some ''tok123''
   \<and> length (sent (fst (call (sample_env login_server) ListEscalations
        (fst (login (sample_env login_server) ''a@b.c'' ''pw'' fresh_browser))))) = 2
   \<and> headers (last (sent (fst (call (sample_env login_server) ListEscalations
        (fst (login (sample_env login_server) ''a@b.c'' ''pw'' fresh_browser))))))
        ''Authorization'' = Some ''Bearer tok123''"
proof -
  let ?e = "sample_env login_server"
  let ?w = "fst (login ?e ''a@b.c'' ''pw'' fresh_browser)"
  have fetched: "fetch ?e (sent fresh_browser) (login_request ?e ''a@b.c'' ''pw'') = Inr token_response"
    by (simp add: sample_env_def login_server_def login_request_def base_url_def)
  have first: "call ?e (ResolveEscalation 7) fresh_browser
      = (fresh_browser, Inl (JsError (Some ''Not authenticated'')))"
    using C10_authenticated_helpers [of fresh_browser ?e "ResolveEscalation 7"]
    by (simp add: fresh_browser_def)
  have stored: "getToken ?w = Some ''tok123''"
    and "sent ?w = [login_request ?e ''a@b.c'' ''pw'']"
    using C10_authenticated_helpers
            [of fresh_browser ?e "ResolveEscalation 7" "''a@b.c''" "''pw''" token_response
                "JObj [(''access_token'', JStr ''tok123''), (''token_type'', JStr ''bearer'')]"
                "''tok123''"]
          login_stores_token
            [of ?e fresh_browser "''a@b.c''" "''pw''" token_response
                "JObj [(''access_token'', JStr ''tok123''), (''token_type'', JStr ''bearer'')]"
                "''tok123''"]
          fetched
    by (simp_all add: token_response_def member_def fresh_browser_def setToken_def)
  then obtain r where "sent (fst (call ?e ListEscalations ?w)) = sent ?w @ [r]"
    and "headers r ''Authorization'' = Some (''Bearer '' @ ''tok123'')"
    using C10_authenticated_helpers
            [of ?w ?e ListEscalations "''a@b.c''" "''pw''" token_response JNull "''tok123''"]
    by auto
  then show ?thesis
    using first stored \<open>sent ?w = [login_request ?e ''a@b.c'' ''pw'']\<close> by simp
qed

section \<open>Failure messages\<close>

lemma onResolve_failure_alert:
  "alerts (onResolve i (Inl err) load_outcome pg) =
     alerts pg @ [message_or err ''Failed to resolve escalation'']"
  by (simp add: onResolve_def)

lemma apiFetch_not_ok:
  assumes "getToken w = Some tok" and "tok \<noteq> []"
    and "fetch e (sent w) = (\<lambda>req. Inr res)" and "\<not> ok res"
  shows "snd (apiFetch e path opts True w) = Inl (JsError (Some (readErrorMessage e res)))"
  using assms by (simp add: apiFetch_def Let_def do_fetch_def truthy_str_def)

lemma readErrorMessage_detail:
  assumes "json_result res = Inr data" and "member data ''detail'' = Some (JStr d)"
  shows "readErrorMessage e res = d"
  using assms by (simp add: readErrorMessage_def)

text \<open>
  C6. A failed turn request shows the fixed text "Something went wrong while
  sending your message. Please try again.", the same list of messages whatever was thrown.
  Escalation resolution is not generic: \<open>onResolve\<close> alerts the message of the thrown
  error, which for a response that is not \<open>ok\<close> and carries a string \<open>detail\<close> is that
  string, and shows the fixed text "Failed to resolve escalation" only when the thrown
  value has no message.
\<close>

theorem C6_turn_failure_generic_resolution_not:
  "messages (fst (onSend_reply tid rid (Inl err) st)) =
      filter (\<lambda>m. msg_id m \<noteq> tid) (messages st) @ [failureMsg rid]
   \<and> content (failureMsg rid) =
        ''Something went wrong while sending your message. Please try again.''
   \<and> messages (fst (onSend_reply tid rid (Inl err) st)) =
        messages (fst (onSend_reply tid rid (Inl err') st))
   \<and> alerts (onResolve i (Inl (JsError (Some msg))) load_outcome pg) = alerts pg @ [msg]
   \<and> alerts (onResolve i (Inl (JsError None)) load_outcome pg) =
        alerts pg @ [''Failed to resolve escalation'']
   \<and> (getToken w = Some tok \<and> tok \<noteq> [] \<and> fetch e (sent w) = (\<lambda>req. Inr res) \<and> \<not> ok res
        \<and> json_result res = Inr data \<and> member data ''detail'' = Some (JStr d) \<longrightarrow>
        alerts (onResolve i (settled (snd (resolveEscalation e i w))) load_outcome pg) =
          alerts pg @ [d])"
proof (intro conjI impI)
  assume a: "getToken w = Some tok \<and> tok \<noteq> [] \<and> fetch e (sent w) = (\<lambda>req. Inr res)
      \<and> \<not> ok res \<and> json_result res = Inr data \<and> member data ''detail'' = Some (JStr d)"
  then have "snd (resolveEscalation e i w) = Inl (JsError (Some (readErrorMessage e res)))"
    unfolding resolveEscalation_def using apiFetch_not_ok [of w tok e res] by blast
  moreover have "readErrorMessage e res = d"
    using a readErrorMessage_detail [of res data d e] by blast
  ultimately show "alerts (onResolve i (settled (snd (resolveEscalation e i w))) load_outcome pg)
      = alerts pg @ [d]"
    by (simp add: settled_def onResolve_failure_alert message_or_def)
qed (simp_all add: onSend_reply_def failureMsg_def onResolve_failure_alert message_or_def)

text \<open>
  A signed-in browser, a server whose database is down and which answers every request
  with status 500 and the driver's error as \<open>detail\<close>, and the escalations page once loaded.
\<close>

definition signed_in_browser :: world where
  "signed_in_browser =
     \<lparr> storage = [''medibot_token'' \<mapsto> ''tok123''], window_defined = True, sent = [] \<rparr>"

definition failing_server :: "request \<Rightarrow> js_error + response" where
  "failing_server req =
     Inr \<lparr> ok = False, status = 500,
           json_result = Inr (JObj [(''detail'',
             JStr ''OperationalError: could not connect to server at 10.0.3.7 port 5432'')]),
           text_result = Inl (JsError (Some ''body already read'')) \<rparr>"

definition escalations_page0 :: escalations_page where
  "escalations_page0 =
     \<lparr> items = [], loading = False, error = None, resolvingId = None, alerts = [] \<rparr>"

theorem C6_turn_failure_generic_resolution_not_witness:
  "alerts (onResolve 7
      (settled (snd (resolveEscalation (sample_env failing_server) 7 signed_in_browser)))
      (Inr []) escalations_page0)
     = [''OperationalError: could not connect to server at 10.0.3.7 port 5432'']
   \<and> content (last (messages (fst (onSend_reply ''t1'' ''r1''
         (Inl (JsError (Some ''OperationalError: could not connect to server at 10.0.3.7 port 5432'')))
         (ui page0))))) =
       ''Something went wrong while sending your message. Please try again.''"
  using C6_turn_failure_generic_resolution_not
          [of "''t1''" "''r1''"
              "JsError (Some ''OperationalError: could not connect to server at 10.0.3.7 port 5432'')"
              "ui page0"
              "JsError None" 7 "''x''" "Inr []" escalations_page0
              signed_in_browser "''tok123''" "sample_env failing_server"
              "\<lparr> ok = False, status = 500,
                 json_result = Inr (JObj [(''detail'',
                   JStr ''OperationalError: could not connect to server at 10.0.3.7 port 5432'')]),
                 text_result = Inl (JsError (Some ''body already read'')) \<rparr>"
              "JObj [(''detail'',
                   JStr ''OperationalError: could not connect to server at 10.0.3.7 port 5432'')]"
              "''OperationalError: could not connect to server at 10.0.3.7 port 5432''"]
  by (simp add: signed_in_browser_def getToken_def sample_env_def failing_server_def
        member_def escalations_page0_def page0_def state0_def)

text \<open>
  C6, on escalation resolution: the failure message is not generic. With the database
  down, the alert shown to the user is the server's internal error text.
\<close>

theorem C6_resolve_failure_shows_server_detail:
  "alerts (onResolve 7
      (settled (snd (resolveEscalation (sample_env failing_server) 7 signed_in_browser)))
      (Inr []) escalations_page0)
     = [''OperationalError: could not connect to server at 10.0.3.7 port 5432'']"
  by (simp add: resolveEscalation_def apiFetch_def Let_def do_fetch_def truthy_str_def
        getToken_def signed_in_browser_def sample_env_def failing_server_def
        readErrorMessage_def member_def settled_def onResolve_def message_or_def
        escalations_page0_def)

section \<open>Escalation Manager (decision core)\<close>

text \<open>
  \<open>resolve\<close> of the Escalation Manager is code of the back end, which is not among the
  sources; the front end only sends the PATCH request (\<open>resolveEscalation\<close>) and reloads
  the list. The error taxonomy is that of section 7 of the specification; the store maps
  identifiers to escalations, each with the time of its resolution, if any.
\<close>

datatype core_error = ValidationError | NotFound | CollaboratorUnavailable | PersistenceFailure

record escalation_row = Escalation +
  resolved_at :: "nat option"

text \<open>
  Modelled from the spec: \<open>resolve\<close> of the Escalation Manager (back-end code that is
  missing from the sources), after section 4.6: it fails with \<open>NotFound\<close> if the escalation
  is absent, is a no-op success if it is already resolved, and otherwise sets \<open>resolved\<close>
  and stamps the resolution time.
\<close>

definition resolve ::
  "int \<Rightarrow> nat \<Rightarrow> (int \<rightharpoonup> escalation_row)
    \<Rightarrow> core_error + escalation_row \<times> (int \<rightharpoonup> escalation_row)" where
  "resolve escalation_id now store =
     (case store escalation_id of
        None \<Rightarrow> Inl NotFound
      | Some e \<Rightarrow>
          if resolved e then Inr (e, store)
          else (let e' = e\<lparr> resolved := True, resolved_at := Some now \<rparr>
                in Inr (e', store(escalation_id \<mapsto> e'))))"

text \<open>
  C7. \<open>resolve\<close> fails with \<open>NotFound\<close> when the escalation is absent, returns the
  escalation and the unchanged store when it is already resolved, and otherwise returns it
  with \<open>resolved\<close> set and stores that; a second \<open>resolve\<close> of the same escalation succeeds
  with the same resolved escalation and changes nothing.
\<close>

theorem C7_resolve_idempotent:
  "(store i = None \<longrightarrow> resolve i now store = Inl NotFound)
   \<and> (store i = Some e \<and> resolved e \<longrightarrow> resolve i now store = Inr (e, store))
   \<and> (store i = Some e \<and> \<not> resolved e \<longrightarrow>
        resolve i now store =
          Inr (e\<lparr> resolved := True, resolved_at := Some now \<rparr>,
               store(i \<mapsto> e\<lparr> resolved := True, resolved_at := Some now \<rparr>)))
   \<and> (store i = Some e \<longrightarrow>
        (\<exists>e1 s1. resolve i now store = Inr (e1, s1) \<and> resolved e1
                 \<and> resolve i later s1 = Inr (e1, s1)))"
proof (intro conjI impI)
  assume present: "store i = Some e"
  show "\<exists>e1 s1. resolve i now store = Inr (e1, s1) \<and> resolved e1
                 \<and> resolve i later s1 = Inr (e1, s1)"
  proof (cases "resolved e")
    case True
    then have "resolve i now store = Inr (e, store)" and "resolve i later store = Inr (e, store)"
      using present by (simp_all add: resolve_def)
    then show ?thesis using True by blast
  next
    case False
    let ?e = "e\<lparr> resolved := True, resolved_at := Some now \<rparr>"
    let ?s = "store(i \<mapsto> ?e)"
    have "resolve i now store = Inr (?e, ?s)"
      using present False by (simp add: resolve_def Let_def)
    moreover have "resolve i later ?s = Inr (?e, ?s)"
      by (simp add: resolve_def)
    ultimately show ?thesis by (intro exI [of _ ?e] exI [of _ ?s]) simp
  qed
qed (simp_all add: resolve_def Let_def)

definition sample_store :: "int \<rightharpoonup> escalation_row" where
  "sample_store =
     [7 \<mapsto> \<lparr> esc_id = 7, conversation_id = 3, reason = ''emergency'', esc_notes = [],
              resolved = False, created_at = ''2025-01-01T10:00:00'', resolved_at = None \<rparr>]"

theorem C7_resolve_idempotent_witness:
  "resolve 8 5 sample_store = Inl NotFound
   \<and> (case resolve 7 5 sample_store of
         Inl err \<Rightarrow> False
       | Inr (e1, s1) \<Rightarrow>
           resolved e1 \<and> resolved_at e1 = Some 5 \<and> resolve 7 9 s1 = Inr (e1, s1))"
  using C7_resolve_idempotent
          [of sample_store 8 5
              "\<lparr> esc_id = 7, conversation_id = 3, reason = ''emergency'', esc_notes = [],
                 resolved = False, created_at = ''2025-01-01T10:00:00'', resolved_at = None \<rparr>"
              9]
        C7_resolve_idempotent
          [of sample_store 7 5
              "\<lparr> esc_id = 7, conversation_id = 3, reason = ''emergency'', esc_notes = [],
                 resolved = False, created_at = ''2025-01-01T10:00:00'', resolved_at = None \<rparr>"
              9]
  by (auto simp: sample_store_def)

end
